theory Spec2Isabelle
  imports Complex_Main "HOL-Library.Product_Lexorder" "HOL-Library.Multiset"
begin

section \<open>Values and errors\<close>

text \<open>
  The script \<^verbatim>\<open>01_clean_tse_data.py\<close> computes the Esteban-Ray polarization index per
  municipality and year from TSE vote records and a party ideology table.

  Numbers: a float64 is modelled as a real number (rounding is not modelled), and the one
  non-finite value the pipeline can produce, the \<^verbatim>\<open>nan\<close> of \<^verbatim>\<open>0 / 0\<close>, is the constructor
  \<open>NaN\<close>. Exceptions are values of \<open>py_error\<close>; a function that can raise returns
  \<open>py_error + 'a\<close>, with \<open>Inl\<close> for the exception.
\<close>

datatype py_error = IndexError | KeyError | ValueError | UnicodeDecodeError | OSError

datatype npfloat = Num real | NaN

text \<open>The comparison \<^verbatim>\<open>x > 0\<close> of numpy: false on \<^verbatim>\<open>nan\<close>.\<close>

fun gt_zero :: "npfloat \<Rightarrow> bool" where
  "gt_zero (Num v) = (0 < v)"
| "gt_zero NaN = False"

text \<open>
  Boolean-mask indexing \<^verbatim>\<open>arr[mask]\<close>: numpy raises \<^verbatim>\<open>IndexError\<close> when the mask and the
  array differ in length, and otherwise keeps the entries whose mask bit is set.
\<close>

definition bool_index :: "'a list \<Rightarrow> bool list \<Rightarrow> py_error + 'a list" where
  "bool_index arr msk =
     (if length msk \<noteq> length arr then Inl IndexError
      else Inr (map fst (filter snd (zip arr msk))))"

text \<open>
  \<^verbatim>\<open>vote_shares[vote_shares > 0]\<close>: the entries that pass the mask are finite and positive,
  so they are returned as reals (lemma \<open>select_gt_zero_bool_index\<close> below relates this to
  \<open>bool_index\<close>).
\<close>

fun select_gt_zero :: "npfloat list \<Rightarrow> real list" where
  "select_gt_zero [] = []"
| "select_gt_zero (Num v # xs) = (if 0 < v then v # select_gt_zero xs else select_gt_zero xs)"
| "select_gt_zero (NaN # xs) = select_gt_zero xs"

section \<open>The Esteban-Ray index\<close>

text \<open>The default of the parameter \<^verbatim>\<open>alpha\<close> and the constant \<^verbatim>\<open>K = 1.0\<close>.\<close>

definition default_alpha :: real where
  "default_alpha = 16 / 10"

definition er_K :: real where
  "er_K = 1"

text \<open>The body of the inner loop for one pair \<open>(i, j)\<close> with \<open>i \<noteq> j\<close>.\<close>

definition pair_term :: "real list \<Rightarrow> real list \<Rightarrow> real \<Rightarrow> nat \<Rightarrow> nat \<Rightarrow> real" where
  "pair_term vote_shares ideologies alpha i j =
     (let identification = (vote_shares ! i) powr (1 + alpha);
          alienation = vote_shares ! j;
          distance = \<bar>ideologies ! i - ideologies ! j\<bar>
      in identification * alienation * distance)"

text \<open>
  The two nested \<^verbatim>\<open>for ... in range(n)\<close> loops, each a \<open>fold\<close> over \<open>[0..<n]\<close> that threads
  the accumulator \<^verbatim>\<open>polarization\<close>, started at 0.
\<close>

definition inner_loop :: "real list \<Rightarrow> real list \<Rightarrow> real \<Rightarrow> nat \<Rightarrow> nat \<Rightarrow> real \<Rightarrow> real" where
  "inner_loop vote_shares ideologies alpha n i polarization =
     fold (\<lambda>j acc. if i \<noteq> j then acc + pair_term vote_shares ideologies alpha i j else acc)
       [0..<n] polarization"

definition pairwise_polarization :: "real list \<Rightarrow> real list \<Rightarrow> real \<Rightarrow> real" where
  "pairwise_polarization vote_shares ideologies alpha =
     (let n = length vote_shares
      in fold (\<lambda>i acc. inner_loop vote_shares ideologies alpha n i acc) [0..<n] 0)"

definition esteban_ray_index_alpha :: "npfloat list \<Rightarrow> real list \<Rightarrow> real \<Rightarrow> py_error + real" where
  "esteban_ray_index_alpha vote_shares ideologies alpha =
     (let msk = map gt_zero vote_shares;
          vote_shares1 = select_gt_zero vote_shares
      in case bool_index ideologies msk of
           Inl e \<Rightarrow> Inl e
         | Inr ideologies1 \<Rightarrow>
             (let total = sum_list vote_shares1;
                  vote_shares2 = map (\<lambda>v. v / total) vote_shares1
              in Inr (er_K * pairwise_polarization vote_shares2 ideologies1 alpha)))"

definition esteban_ray_index :: "npfloat list \<Rightarrow> real list \<Rightarrow> py_error + real" where
  "esteban_ray_index vote_shares ideologies =
     esteban_ray_index_alpha vote_shares ideologies default_alpha"


subsection \<open>The formula of the specification\<close>

text \<open>
  These three definitions follow the words of the specification, not the code: entries with
  zero vote share are excluded, the remaining shares are re-normalized to sum to 1, and the
  index is \<open>K\<close> times the sum over ordered pairs \<open>i \<noteq> j\<close> of
  \<open>s\<^sub>i\<^bsup>1+\<alpha>\<^esup> \<cdot> s\<^sub>j \<cdot> |p\<^sub>i - p\<^sub>j|\<close> with \<open>\<alpha> = 1.6\<close> and \<open>K = 1.0\<close>.
\<close>

definition spec_drop_zero :: "real list \<Rightarrow> real list \<Rightarrow> (real \<times> real) list" where
  "spec_drop_zero s p = filter (\<lambda>(si, pi). si \<noteq> 0) (zip s p)"

definition spec_renormalize :: "real list \<Rightarrow> real list" where
  "spec_renormalize s = map (\<lambda>si. si / sum_list s) s"

definition spec_index :: "real list \<Rightarrow> real list \<Rightarrow> real" where
  "spec_index s p =
     1.0 * (\<Sum>i<length s. \<Sum>j\<in>{..<length s} - {i}.
              (s ! i) powr (1 + 1.6) * s ! j * \<bar>p ! i - p ! j\<bar>)"

section \<open>Tables\<close>

text \<open>
  A data frame is the list of its rows, in order. The columns the script reads from the TSE
  file, the columns of the ideology table, and the columns of the output.
\<close>

record vote_record =
  CD_MUNICIPIO :: int
  SG_PARTIDO :: string
  QT_VOTOS :: nat
  DS_CARGO :: string
  NR_TURNO :: int

record ideology_row =
  party :: string
  ideology :: real
  year :: int

record polarization_result =
  cod_municipio :: int
  ano :: int
  polarizacao_er :: real
  num_partidos :: nat
  total_votos :: nat

text \<open>A row of \<^verbatim>\<open>merged\<close> after \<^verbatim>\<open>dropna\<close>, with the column \<^verbatim>\<open>vote_share\<close>.\<close>

record merged_row =
  vote :: vote_record
  row_ideology :: real
  vote_share :: npfloat

text \<open>
  A loop that appends one result per element and stops at the first exception.
\<close>

fun collect_results :: "('a \<Rightarrow> py_error + 'b) \<Rightarrow> 'a list \<Rightarrow> py_error + 'b list" where
  "collect_results f [] = Inr []"
| "collect_results f (x # xs) =
     (case f x of
        Inl e \<Rightarrow> Inl e
      | Inr y \<Rightarrow> (case collect_results f xs of Inl e \<Rightarrow> Inl e | Inr ys \<Rightarrow> Inr (y # ys)))"

section \<open>The ideology table\<close>

definition PARTY_IDEOLOGY_2018_ADDITIONS :: "(string \<times> real) list" where
  "PARTY_IDEOLOGY_2018_ADDITIONS =
     [(''PSL'', 8.5), (''NOVO'', 9.0), (''PATRI'', 5.0), (''PODE'', 4.5), (''PMN'', 5.5)]"

definition additions :: "ideology_row list" where
  "additions =
     map (\<lambda>(p, score). \<lparr>party = p, ideology = score, year = 2018\<rparr>)
       PARTY_IDEOLOGY_2018_ADDITIONS"

text \<open>
  \<^verbatim>\<open>load_party_ideologies\<close>: the argument is the outcome of reading the base file (the rows,
  or the exception \<^verbatim>\<open>read_csv\<close> raised); the additions are concatenated after the base rows.
\<close>

definition load_party_ideologies :: "py_error + ideology_row list \<Rightarrow> py_error + ideology_row list" where
  "load_party_ideologies read_base =
     (case read_base of
        Inl e \<Rightarrow> Inl e
      | Inr ideology_df \<Rightarrow> Inr (ideology_df @ additions))"

text \<open>At most one ideology value for each pair of party and year.\<close>

definition one_value_per_key :: "ideology_row list \<Rightarrow> bool" where
  "one_value_per_key t =
     (\<forall>a\<in>set t. \<forall>b\<in>set t. party a = party b \<and> year a = year b \<longrightarrow> ideology a = ideology b)"

section \<open>Loading the votes\<close>

text \<open>
  \<^verbatim>\<open>load_tse_data\<close>: \<open>read_latin1\<close> is the outcome of the chunked read inside \<^verbatim>\<open>try\<close> (the
  chunks, or the exception raised while iterating), \<open>read_iso\<close> the outcome of the read in
  the \<^verbatim>\<open>except UnicodeDecodeError\<close> branch. \<^verbatim>\<open>pd.concat\<close> of an empty list of frames raises
  \<^verbatim>\<open>ValueError\<close>.
\<close>

definition load_tse_data ::
  "py_error + vote_record list list \<Rightarrow> py_error + vote_record list \<Rightarrow> py_error + vote_record list" where
  "load_tse_data read_latin1 read_iso =
     (case read_latin1 of
        Inr file_chunks \<Rightarrow>
          (let chunks = map (filter (\<lambda>r. DS_CARGO r = ''Presidente'' \<and> NR_TURNO r = 1)) file_chunks
           in if chunks = [] then Inl ValueError else Inr (concat chunks))
      | Inl e \<Rightarrow> if e = UnicodeDecodeError then read_iso else Inl e)"

subsection \<open>Where the outcomes of the two reads come from\<close>

text \<open>
  \<^verbatim>\<open>pd.read_csv(file_path, encoding=...)\<close> opens the file, decodes its bytes with the codec
  of that name and parses the decoded text. The two names the script uses, \<^verbatim>\<open>'latin1'\<close> and
  \<^verbatim>\<open>'iso-8859-1'\<close>, are aliases of one Python codec, which maps every byte to the code point
  of the same value: decoding with it accepts every sequence of bytes. A file is the list of
  its bytes, or \<open>None\<close> when it cannot be opened (\<^verbatim>\<open>OSError\<close>); a decoded text is the list of
  its code points; the parser is a parameter, with \<open>None\<close> for the \<^verbatim>\<open>ParserError\<close> or
  \<^verbatim>\<open>EmptyDataError\<close> it raises (both are subclasses of \<^verbatim>\<open>ValueError\<close>).
\<close>

datatype encoding = Latin1 | ISO_8859_1

definition decode :: "encoding \<Rightarrow> string \<Rightarrow> py_error + nat list" where
  "decode enc bytes =
     (case enc of
        Latin1 \<Rightarrow> Inr (map of_char bytes)
      | ISO_8859_1 \<Rightarrow> Inr (map of_char bytes))"

definition read_csv :: "string option \<Rightarrow> encoding \<Rightarrow> (nat list \<Rightarrow> 'a option) \<Rightarrow> py_error + 'a" where
  "read_csv file enc parse =
     (case file of
        None \<Rightarrow> Inl OSError
      | Some bytes \<Rightarrow>
          (case decode enc bytes of
             Inl e \<Rightarrow> Inl e
           | Inr txt \<Rightarrow> (case parse txt of None \<Rightarrow> Inl ValueError | Some frame \<Rightarrow> Inr frame)))"

text \<open>
  \<^verbatim>\<open>load_tse_data\<close> on a file: the chunked read with \<^verbatim>\<open>encoding='latin1'\<close> inside \<^verbatim>\<open>try\<close>, the
  read with \<^verbatim>\<open>encoding='iso-8859-1'\<close> in the \<^verbatim>\<open>except\<close> branch.
\<close>

definition load_tse_data_from_file ::
  "string option \<Rightarrow> (nat list \<Rightarrow> vote_record list list option) \<Rightarrow>
   (nat list \<Rightarrow> vote_record list option) \<Rightarrow> py_error + vote_record list" where
  "load_tse_data_from_file file parse_chunks parse_frame =
     load_tse_data (read_csv file Latin1 parse_chunks) (read_csv file ISO_8859_1 parse_frame)"

section \<open>Polarization by municipality\<close>

text \<open>
  The left merge on \<^verbatim>\<open>SG_PARTIDO = party\<close>: every vote row once per matching ideology row,
  or once with a missing ideology when there is none.
\<close>

definition merge_left :: "vote_record list \<Rightarrow> ideology_row list \<Rightarrow> (vote_record \<times> real option) list" where
  "merge_left votes_df ideology_year =
     concat (map (\<lambda>v.
       (let matches = filter (\<lambda>r. party r = SG_PARTIDO v) ideology_year
        in if matches = [] then [(v, None)] else map (\<lambda>r. (v, Some (ideology r))) matches))
       votes_df)"

fun dropna :: "(vote_record \<times> real option) list \<Rightarrow> (vote_record \<times> real) list" where
  "dropna [] = []"
| "dropna ((v, None) # rows) = dropna rows"
| "dropna ((v, Some i) # rows) = (v, i) # dropna rows"

text \<open>
  \<^verbatim>\<open>x / x.sum()\<close> on a column of integers: pandas does not raise on a zero sum, the quotient
  is \<^verbatim>\<open>nan\<close> (every summand of a zero sum of counts is zero, so the quotient is \<^verbatim>\<open>0 / 0\<close>).
\<close>

definition np_true_divide :: "nat \<Rightarrow> nat \<Rightarrow> npfloat" where
  "np_true_divide x x_sum = (if x_sum = 0 then NaN else Num (real x / real x_sum))"

definition municipality_totals :: "(vote_record \<times> real) list \<Rightarrow> int \<Rightarrow> nat" where
  "municipality_totals merged municipio =
     sum_list (map (\<lambda>(v, i). QT_VOTOS v) (filter (\<lambda>(v, i). CD_MUNICIPIO v = municipio) merged))"

text \<open>
  Lines 188 to 211: the table \<^verbatim>\<open>merged\<close> with its column \<^verbatim>\<open>vote_share\<close>. The warning about
  parties without ideology is logged only and is left out. The ideology values of the table
  are taken to be numbers, so a row of \<^verbatim>\<open>merged\<close> lacks an ideology exactly when no row of
  the table matches its party.
\<close>

definition merged_table :: "vote_record list \<Rightarrow> ideology_row list \<Rightarrow> int \<Rightarrow> merged_row list" where
  "merged_table votes_df ideology_df yr =
     (let ideology_year = filter (\<lambda>r. year r = yr) ideology_df;
          merged = dropna (merge_left votes_df ideology_year)
      in map (\<lambda>(v, i). \<lparr>vote = v, row_ideology = i,
                vote_share = np_true_divide (QT_VOTOS v) (municipality_totals merged (CD_MUNICIPIO v))\<rparr>)
           merged)"

definition group_rows :: "merged_row list \<Rightarrow> int \<Rightarrow> merged_row list" where
  "group_rows merged municipio = filter (\<lambda>r. CD_MUNICIPIO (vote r) = municipio) merged"

text \<open>
  The body of the loop over \<^verbatim>\<open>merged.groupby('CD_MUNICIPIO')\<close>. The entry
  \<^verbatim>\<open>municipality_totals[municipio]\<close> is the sum of the votes of the rows of the group (lemma
  \<open>group_total\<close> below).
\<close>

definition polarization_row :: "merged_row list \<Rightarrow> int \<Rightarrow> int \<Rightarrow> py_error + polarization_result" where
  "polarization_row merged yr municipio =
     (let grp = group_rows merged municipio;
          vote_shares = map vote_share grp;
          ideologies = map row_ideology grp
      in case esteban_ray_index vote_shares ideologies of
           Inl e \<Rightarrow> Inl e
         | Inr er_index \<Rightarrow>
             Inr \<lparr>cod_municipio = municipio, ano = yr, polarizacao_er = er_index,
                  num_partidos = length grp,
                  total_votos = sum_list (map (\<lambda>r. QT_VOTOS (vote r)) grp)\<rparr>)"

text \<open>\<^verbatim>\<open>groupby\<close> iterates over the distinct keys in ascending order.\<close>

definition calculate_municipality_polarization ::
  "vote_record list \<Rightarrow> ideology_row list \<Rightarrow> int \<Rightarrow> py_error + polarization_result list" where
  "calculate_municipality_polarization votes_df ideology_df yr =
     (let merged = merged_table votes_df ideology_df yr;
          municipios = sort (remdups (map (\<lambda>r. CD_MUNICIPIO (vote r)) merged))
      in collect_results (polarization_row merged yr) municipios)"

text \<open>The number of distinct parties among the rows of a group.\<close>

definition distinct_parties :: "merged_row list \<Rightarrow> nat" where
  "distinct_parties grp = length (remdups (map (\<lambda>r. SG_PARTIDO (vote r)) grp))"

subsection \<open>Parties in a group\<close>






text \<open>The table holds at most one ideology value for a party in a year.\<close>

definition single_ideology :: "ideology_row list \<Rightarrow> string \<Rightarrow> int \<Rightarrow> bool" where
  "single_ideology t p y =
     (\<forall>a\<in>set t. \<forall>b\<in>set t.
        party a = p \<and> year a = y \<and> party b = p \<and> year b = y \<longrightarrow> ideology a = ideology b)"

section \<open>The main function\<close>

definition ELECTION_YEARS :: "int list" where
  "ELECTION_YEARS = [2010, 2014, 2018, 2022]"

text \<open>
  Lines 267 to 270. A year without results contributes a frame without columns, so when
  every year is empty \<^verbatim>\<open>sort_values\<close> finds no column \<^verbatim>\<open>cod_municipio\<close> and raises
  \<^verbatim>\<open>KeyError\<close>.
\<close>

definition combine_and_sort :: "polarization_result list list \<Rightarrow> py_error + polarization_result list" where
  "combine_and_sort all_results =
     (let final_df = concat all_results
      in if final_df = [] then Inl KeyError
         else Inr (sort_key (\<lambda>r. (cod_municipio r, ano r)) final_df))"

text \<open>
  \<^verbatim>\<open>main\<close>, with the outcomes of the file reads as arguments (per year for the vote files).
  Creating the output directory, writing the CSV file and logging are left out.
\<close>

definition main ::
  "py_error + ideology_row list \<Rightarrow> (int \<Rightarrow> py_error + vote_record list list) \<Rightarrow>
   (int \<Rightarrow> py_error + vote_record list) \<Rightarrow> py_error + polarization_result list" where
  "main read_base read_latin1 read_iso =
     (case load_party_ideologies read_base of
        Inl e \<Rightarrow> Inl e
      | Inr ideology_df \<Rightarrow>
          (case collect_results
                  (\<lambda>y. case load_tse_data (read_latin1 y) (read_iso y) of
                         Inl e \<Rightarrow> Inl e
                       | Inr votes_df \<Rightarrow> calculate_municipality_polarization votes_df ideology_df y)
                  ELECTION_YEARS of
             Inl e \<Rightarrow> Inl e
           | Inr all_results \<Rightarrow> combine_and_sort all_results))"

section \<open>Facts about the index\<close>

lemma select_gt_zero_bool_index:
  "bool_index vote_shares (map gt_zero vote_shares) = Inr (map Num (select_gt_zero vote_shares))"
proof -
  have "map fst (filter snd (zip xs (map gt_zero xs))) = map Num (select_gt_zero xs)" for xs
    by (induction xs rule: select_gt_zero.induct) simp_all
  then show ?thesis by (simp add: bool_index_def)
qed

lemma fold_add_upt:
  "fold (\<lambda>i acc. acc + f i) [0..<n] (a::real) = a + sum f {..<n}"
  by (induction n) simp_all

lemma inner_loop_sum:
  "inner_loop vs ps al n i a = a + (\<Sum>j<n. if i \<noteq> j then pair_term vs ps al i j else 0)"
proof -
  have "(\<lambda>j acc. if i \<noteq> j then acc + pair_term vs ps al i j else acc)
      = (\<lambda>j acc. acc + (if i \<noteq> j then pair_term vs ps al i j else 0))"
    by (intro ext) simp
  then show ?thesis
    unfolding inner_loop_def by (simp only: fold_add_upt)
qed

lemma pairwise_polarization_sum:
  "pairwise_polarization vs ps al =
     (\<Sum>i<length vs. \<Sum>j<length vs. if i \<noteq> j then pair_term vs ps al i j else 0)"
  unfolding pairwise_polarization_def Let_def inner_loop_sum
  by (simp only: fold_add_upt)

lemma select_gt_zero_pos: "v \<in> set (select_gt_zero xs) \<Longrightarrow> 0 < v"
  by (induction xs rule: select_gt_zero.induct) (auto split: if_splits)

lemma sum_list_select_pos: "select_gt_zero xs \<noteq> [] \<Longrightarrow> 0 < sum_list (select_gt_zero xs)"
  by (induction xs rule: select_gt_zero.induct) (auto split: if_splits intro: add_pos_nonneg sum_list_nonneg dest: select_gt_zero_pos less_imp_le)

lemma esteban_ray_index_eq:
  "length vs = length ps \<Longrightarrow>
   esteban_ray_index vs ps =
     Inr (er_K * pairwise_polarization
            (map (\<lambda>v. v / sum_list (select_gt_zero vs)) (select_gt_zero vs))
            (map fst (filter snd (zip ps (map gt_zero vs)))) default_alpha)"
  by (simp add: esteban_ray_index_def esteban_ray_index_alpha_def bool_index_def Let_def)

lemma esteban_ray_index_error:
  "length vs \<noteq> length ps \<Longrightarrow> esteban_ray_index vs ps = Inl IndexError"
  by (simp add: esteban_ray_index_def esteban_ray_index_alpha_def bool_index_def Let_def)

lemma pair_term_nonneg: "0 \<le> vs ! j \<Longrightarrow> 0 \<le> pair_term vs ps al i j"
  by (simp add: pair_term_def Let_def)

lemma pairwise_polarization_nonneg:
  assumes "\<forall>v\<in>set vs. 0 \<le> v"
  shows "0 \<le> pairwise_polarization vs ps al"
  unfolding pairwise_polarization_sum
  using assms by (intro sum_nonneg) (auto intro!: pair_term_nonneg)







text \<open>
  On arrays with one entry the index is exactly 0, whatever the vote share (positive, zero,
  negative or \<^verbatim>\<open>nan\<close>) and the ideology value are, and the call does not fail.
\<close>

theorem single_party_zero: "esteban_ray_index [s] [p] = Inr 0"
  by (cases s)
     (simp_all add: esteban_ray_index_def esteban_ray_index_alpha_def bool_index_def Let_def
        pairwise_polarization_def inner_loop_def)

lemma select_gt_zero_empty: "(\<forall>v\<in>set vs. \<not> gt_zero v) \<Longrightarrow> select_gt_zero vs = []"
  by (induction vs rule: select_gt_zero.induct) simp_all

text \<open>
  Claim C9: when no entry of the vote-share array is positive (every entry is zero,
  negative or \<^verbatim>\<open>nan\<close>, or the array is empty), the mask removes all entries and the call
  returns 0 without raising, for arrays of equal length.
\<close>

theorem all_nonpositive_zero:
  assumes "length vote_shares = length ideologies" and "\<forall>v\<in>set vote_shares. \<not> gt_zero v"
  shows "select_gt_zero vote_shares = [] \<and> esteban_ray_index vote_shares ideologies = Inr 0"
  using assms
  by (simp add: select_gt_zero_empty esteban_ray_index_eq pairwise_polarization_def)

theorem all_nonpositive_zero_witness:
  "select_gt_zero [Num 0, Num (- 1), NaN] = []
   \<and> esteban_ray_index [Num 0, Num (- 1), NaN] [1, 2, 3] = Inr 0"
  using all_nonpositive_zero [of "[Num 0, Num (- 1), NaN]" "[1, 2, 3]"] by simp

lemma esteban_ray_index_returns:
  assumes "length vote_shares = length ideologies"
  shows "\<exists>v. 0 \<le> v \<and> esteban_ray_index vote_shares ideologies = Inr v"
proof -
  have "0 \<le> v / sum_list (select_gt_zero vote_shares)" if "v \<in> set (select_gt_zero vote_shares)" for v
  proof -
    from that have "select_gt_zero vote_shares \<noteq> []" by auto
    then have "0 < sum_list (select_gt_zero vote_shares)" by (rule sum_list_select_pos)
    with select_gt_zero_pos[OF that] show ?thesis by simp
  qed
  then have "0 \<le> pairwise_polarization
            (map (\<lambda>v. v / sum_list (select_gt_zero vote_shares)) (select_gt_zero vote_shares))
            ps al" for ps al
    by (intro pairwise_polarization_nonneg) auto
  with assms show ?thesis
    by (simp add: esteban_ray_index_eq er_K_def)
qed

lemma length_kept_ideologies:
  "length vs = length ps \<Longrightarrow>
   length (map fst (filter snd (zip ps (map gt_zero vs)))) = length (select_gt_zero vs)"
proof (induction vs ps rule: list_induct2)
  case Nil
  then show ?case by simp
next
  case (Cons v vs p ps)
  then show ?case by (cases v) simp_all
qed

lemma same_ideology_zero:
  assumes "length vs = length ps" and "\<forall>p\<in>set ps. p = c"
  shows "esteban_ray_index vs ps = Inr 0"
proof -
  define qs where "qs = map fst (filter snd (zip ps (map gt_zero vs)))"
  have "set qs \<subseteq> set ps"
    unfolding qs_def by (auto dest: set_zip_leftD)
  with assms(2) have c: "\<forall>p\<in>set qs. p = c" by blast
  have "pair_term ws qs al i j = 0" if "i < length qs" "j < length qs" for ws al i j
  proof -
    from that c have "qs ! i = c" "qs ! j = c" by (simp_all only: nth_mem)
    then show ?thesis by (simp add: pair_term_def Let_def)
  qed
  then have "pairwise_polarization ws qs al = 0" if "length ws = length qs" for ws al
    unfolding pairwise_polarization_sum that by (intro sum.neutral ballI) simp
  moreover have "length qs = length (select_gt_zero vs)"
    unfolding qs_def using assms(1) by (rule length_kept_ideologies)
  ultimately have
    "pairwise_polarization
       (map (\<lambda>v. v / sum_list (select_gt_zero vs)) (select_gt_zero vs)) qs default_alpha = 0"
    by simp
  then show ?thesis
    using assms(1) by (simp add: esteban_ray_index_eq qs_def)
qed

text \<open>
  Claim C7: whatever the vote shares and the ideology positions are, a value returned by
  the index is non-negative; the only other outcome is the \<^verbatim>\<open>IndexError\<close> of arrays that
  differ in length.
\<close>

theorem index_nonneg:
  "case esteban_ray_index vote_shares ideologies of
     Inr v \<Rightarrow> 0 \<le> v
   | Inl e \<Rightarrow> e = IndexError \<and> length vote_shares \<noteq> length ideologies"
proof (cases "length vote_shares = length ideologies")
  case True
  then obtain v where "0 \<le> v" and "esteban_ray_index vote_shares ideologies = Inr v"
    using esteban_ray_index_returns by blast
  then show ?thesis by simp
next
  case False
  then show ?thesis by (simp add: esteban_ray_index_error)
qed

theorem index_nonneg_witness:
  "case esteban_ray_index [Num 600, Num 400] [2, 8] of Inr v \<Rightarrow> 0 \<le> v | Inl e \<Rightarrow> False"
  using index_nonneg [of "[Num 600, Num 400]" "[2, 8]"] by (simp split: sum.splits)

lemma spec_index_pairwise:
  "er_K * pairwise_polarization vs ps default_alpha = spec_index vs ps"
proof -
  have "(\<Sum>j<length vs. if i \<noteq> j then pair_term vs ps default_alpha i j else 0)
      = (\<Sum>j\<in>{..<length vs} - {i}. (vs ! i) powr (1 + 1.6) * vs ! j * \<bar>ps ! i - ps ! j\<bar>)" for i
    by (rule sum.mono_neutral_cong_right) (auto simp: pair_term_def default_alpha_def Let_def)
  then show ?thesis
    by (simp add: pairwise_polarization_sum spec_index_def er_K_def)
qed

lemma drop_zero_shares:
  assumes "length s = length p" and "\<forall>x\<in>set s. 0 \<le> x"
  shows "select_gt_zero (map Num s) = map fst (spec_drop_zero s p)"
  using assms unfolding spec_drop_zero_def
  by (induction s p rule: list_induct2) auto

lemma drop_zero_ideologies:
  assumes "length s = length p" and "\<forall>x\<in>set s. 0 \<le> x"
  shows "map fst (filter snd (zip p (map gt_zero (map Num s)))) = map snd (spec_drop_zero s p)"
  using assms unfolding spec_drop_zero_def
  by (induction s p rule: list_induct2) auto

text \<open>
  Claim C1: for non-negative vote shares \<open>s\<close> and ideology positions \<open>p\<close> of the same
  length, the index drops the entries with zero vote share, re-normalizes the remaining
  shares to sum to 1 and returns \<open>K\<close> times the sum over all ordered pairs \<open>i \<noteq> j\<close> of
  \<open>s\<^sub>i\<^bsup>1+\<alpha>\<^esup> \<cdot> s\<^sub>j \<cdot> |p\<^sub>i - p\<^sub>j|\<close>, with \<open>\<alpha> = 1.6\<close> and \<open>K = 1.0\<close>: the value of the formula of
  the specification.
\<close>

theorem esteban_ray_index_formula:
  assumes "length s = length p" and "\<forall>x\<in>set s. 0 \<le> x"
  shows "esteban_ray_index (map Num s) p =
           Inr (spec_index (spec_renormalize (map fst (spec_drop_zero s p)))
                  (map snd (spec_drop_zero s p)))"
proof -
  have eq: "esteban_ray_index (map Num s) p =
      Inr (er_K * pairwise_polarization
        (map (\<lambda>v. v / sum_list (select_gt_zero (map Num s))) (select_gt_zero (map Num s)))
        (map fst (filter snd (zip p (map gt_zero (map Num s))))) default_alpha)"
    by (rule esteban_ray_index_eq) (simp add: assms(1))
  show ?thesis
    unfolding eq spec_index_pairwise spec_renormalize_def
      drop_zero_shares [OF assms] drop_zero_ideologies [OF assms] ..
qed

theorem esteban_ray_index_formula_witness:
  "esteban_ray_index [Num 600, Num 400] [2, 8] =
     Inr ((3 / 5) powr (13 / 5) * (2 / 5) * 6 + (2 / 5) powr (13 / 5) * (3 / 5) * 6)"
  using esteban_ray_index_formula [of "[600, 400]" "[2, 8]"]
  by (simp add: spec_drop_zero_def spec_renormalize_def spec_index_def lessThan_Suc
        insert_Diff_if)

section \<open>Facts about the loaders\<close>

lemma load_tse_data_primary_filtered:
  assumes "load_tse_data (Inr file_chunks) read_iso = Inr df"
  shows "\<forall>r\<in>set df. DS_CARGO r = ''Presidente'' \<and> NR_TURNO r = 1"
  using assms by (auto simp: load_tse_data_def Let_def split: if_splits)

lemma decode_total: "decode enc bytes = Inr (map of_char bytes)"
  by (cases enc) (simp_all add: decode_def)

lemma read_csv_cases:
  "read_csv file enc parse =
     (case file of
        None \<Rightarrow> Inl OSError
      | Some bytes \<Rightarrow> (case parse (map of_char bytes) of None \<Rightarrow> Inl ValueError | Some frame \<Rightarrow> Inr frame))"
  by (simp add: read_csv_def decode_total split: option.splits)

lemma read_csv_no_decode_error: "read_csv file enc parse \<noteq> Inl UnicodeDecodeError"
  by (simp add: read_csv_cases split: option.splits)

text \<open>
  The \<^verbatim>\<open>except\<close> branch itself returns the frame as it was read, while the chunked read
  discards the same record. By the lemma above no read of a file ends in
  \<^verbatim>\<open>UnicodeDecodeError\<close>, so the branch is never entered.
\<close>

lemma except_branch_unfiltered:
  "load_tse_data (Inl UnicodeDecodeError)
     (Inr [\<lparr>CD_MUNICIPIO = 1, SG_PARTIDO = ''PT'', QT_VOTOS = 10,
            DS_CARGO = ''Governador'', NR_TURNO = 2\<rparr>])
   = Inr [\<lparr>CD_MUNICIPIO = 1, SG_PARTIDO = ''PT'', QT_VOTOS = 10,
            DS_CARGO = ''Governador'', NR_TURNO = 2\<rparr>]
   \<and> load_tse_data
     (Inr [[\<lparr>CD_MUNICIPIO = 1, SG_PARTIDO = ''PT'', QT_VOTOS = 10,
            DS_CARGO = ''Governador'', NR_TURNO = 2\<rparr>]]) (Inl OSError)
   = Inr []"
  by (simp add: load_tse_data_def)

text \<open>
  Claim C2: for every vote file, only records of office \<^verbatim>\<open>Presidente\<close> and round 1 are
  loaded, on every path by which the data is loaded: whenever \<^verbatim>\<open>load_tse_data\<close> returns a
  frame for a file, the file was opened, its text was parsed into chunks, and the frame
  consists of exactly the records of these chunks with office \<^verbatim>\<open>Presidente\<close> and round 1.
  The fallback after \<^verbatim>\<open>UnicodeDecodeError\<close> loads nothing, since the first read cannot raise
  that exception.
\<close>

theorem only_president_first_round:
  assumes "load_tse_data_from_file file parse_chunks parse_frame = Inr df"
  shows "(\<forall>r\<in>set df. DS_CARGO r = ''Presidente'' \<and> NR_TURNO r = 1)
     \<and> (\<exists>bytes file_chunks. file = Some bytes
           \<and> parse_chunks (map of_char bytes) = Some file_chunks
           \<and> df = concat (map (filter (\<lambda>r. DS_CARGO r = ''Presidente'' \<and> NR_TURNO r = 1)) file_chunks))"
proof -
  from assms read_csv_no_decode_error [of "file" Latin1 parse_chunks]
  obtain file_chunks where rd: "read_csv file Latin1 parse_chunks = Inr file_chunks"
    and df: "df = concat (map (filter (\<lambda>r. DS_CARGO r = ''Presidente'' \<and> NR_TURNO r = 1)) file_chunks)"
    by (auto simp: load_tse_data_from_file_def load_tse_data_def Let_def split: sum.splits if_splits)
  from rd obtain bytes where "file = Some bytes" "parse_chunks (map of_char bytes) = Some file_chunks"
    by (auto simp: read_csv_cases split: option.splits)
  with df show ?thesis by auto
qed

theorem only_president_first_round_witness:
  "load_tse_data_from_file (Some ''x'')
     (\<lambda>txt. Some [[\<lparr>CD_MUNICIPIO = 1, SG_PARTIDO = ''PT'', QT_VOTOS = 10,
                      DS_CARGO = ''Presidente'', NR_TURNO = 1\<rparr>,
                    \<lparr>CD_MUNICIPIO = 1, SG_PARTIDO = ''PT'', QT_VOTOS = 7,
                      DS_CARGO = ''Governador'', NR_TURNO = 1\<rparr>],
                   [\<lparr>CD_MUNICIPIO = 1, SG_PARTIDO = ''PT'', QT_VOTOS = 3,
                      DS_CARGO = ''Presidente'', NR_TURNO = 2\<rparr>]])
     (\<lambda>txt. None)
   = Inr [\<lparr>CD_MUNICIPIO = 1, SG_PARTIDO = ''PT'', QT_VOTOS = 10,
            DS_CARGO = ''Presidente'', NR_TURNO = 1\<rparr>]
   \<and> DS_CARGO \<lparr>CD_MUNICIPIO = 1, SG_PARTIDO = ''PT'', QT_VOTOS = 10,
            DS_CARGO = ''Presidente'', NR_TURNO = 1\<rparr> = ''Presidente''"
proof -
  have ev: "load_tse_data_from_file (Some ''x'')
     (\<lambda>txt. Some [[\<lparr>CD_MUNICIPIO = 1, SG_PARTIDO = ''PT'', QT_VOTOS = 10,
                      DS_CARGO = ''Presidente'', NR_TURNO = 1\<rparr>,
                    \<lparr>CD_MUNICIPIO = 1, SG_PARTIDO = ''PT'', QT_VOTOS = 7,
                      DS_CARGO = ''Governador'', NR_TURNO = 1\<rparr>],
                   [\<lparr>CD_MUNICIPIO = 1, SG_PARTIDO = ''PT'', QT_VOTOS = 3,
                      DS_CARGO = ''Presidente'', NR_TURNO = 2\<rparr>]])
     (\<lambda>txt. None)
   = Inr [\<lparr>CD_MUNICIPIO = 1, SG_PARTIDO = ''PT'', QT_VOTOS = 10,
            DS_CARGO = ''Presidente'', NR_TURNO = 1\<rparr>]"
    by (simp add: load_tse_data_from_file_def load_tse_data_def read_csv_cases)
  from only_president_first_round [OF ev] ev show ?thesis by simp
qed

lemma additions_rows:
  "additions =
     [\<lparr>party = ''PSL'', ideology = 8.5, year = 2018\<rparr>,
      \<lparr>party = ''NOVO'', ideology = 9, year = 2018\<rparr>,
      \<lparr>party = ''PATRI'', ideology = 5, year = 2018\<rparr>,
      \<lparr>party = ''PODE'', ideology = 4.5, year = 2018\<rparr>,
      \<lparr>party = ''PMN'', ideology = 5.5, year = 2018\<rparr>]"
  by (simp add: additions_def PARTY_IDEOLOGY_2018_ADDITIONS_def)

lemma additions_one_value: "one_value_per_key additions"
  by (simp add: one_value_per_key_def additions_def PARTY_IDEOLOGY_2018_ADDITIONS_def)

lemma one_value_per_key_append:
  "one_value_per_key (xs @ ys) \<longleftrightarrow>
     one_value_per_key xs \<and> one_value_per_key ys \<and>
     (\<forall>b\<in>set xs. \<forall>a\<in>set ys. party b = party a \<and> year b = year a \<longrightarrow> ideology b = ideology a)"
  (is "?L \<longleftrightarrow> ?R")
proof
  assume ?L
  then show ?R unfolding one_value_per_key_def by simp
next
  assume r: ?R
  show ?L unfolding one_value_per_key_def
  proof (intro ballI impI)
    fix a b
    assume a: "a \<in> set (xs @ ys)" and b: "b \<in> set (xs @ ys)"
      and k: "party a = party b \<and> year a = year b"
    from r have x: "\<forall>a\<in>set xs. \<forall>b\<in>set xs. party a = party b \<and> year a = year b \<longrightarrow> ideology a = ideology b"
      and y: "\<forall>a\<in>set ys. \<forall>b\<in>set ys. party a = party b \<and> year a = year b \<longrightarrow> ideology a = ideology b"
      and c: "\<forall>b\<in>set xs. \<forall>a\<in>set ys. party b = party a \<and> year b = year a \<longrightarrow> ideology b = ideology a"
      unfolding one_value_per_key_def by blast+
    consider "a \<in> set xs" "b \<in> set xs" | "a \<in> set xs" "b \<in> set ys"
      | "a \<in> set ys" "b \<in> set xs" | "a \<in> set ys" "b \<in> set ys"
      using a b by auto
    then show "ideology a = ideology b"
    proof cases
      case 1 with x k show ?thesis by blast
    next
      case 2 with c k show ?thesis by blast
    next
      case 3 with c k show ?thesis by (metis (no_types))
    next
      case 4 with y k show ?thesis by blast
    qed
  qed
qed

text \<open>
  Claim C3, as amended: the ideology table is the base table followed by the five additions
  for 2018, every row kept. It has at most one ideology value per pair of party and year
  exactly when the base table has at most one value per pair and every base row that shares
  party and year with an addition carries the value of that addition. No row replaces
  another.
\<close>

theorem ideology_table_values:
  "load_party_ideologies (Inr base) = Inr (base @ additions) \<and>
   (one_value_per_key (base @ additions) \<longleftrightarrow>
      one_value_per_key base \<and>
      (\<forall>b\<in>set base. \<forall>a\<in>set additions.
         party b = party a \<and> year b = year a \<longrightarrow> ideology b = ideology a))"
  by (simp add: load_party_ideologies_def one_value_per_key_append additions_one_value)

theorem ideology_table_values_witness:
  "load_party_ideologies
     (Inr [\<lparr>party = ''PT'', ideology = 3, year = 2018\<rparr>, \<lparr>party = ''PSL'', ideology = 8, year = 2014\<rparr>])
     = Inr ([\<lparr>party = ''PT'', ideology = 3, year = 2018\<rparr>, \<lparr>party = ''PSL'', ideology = 8, year = 2014\<rparr>]
            @ additions)
   \<and> one_value_per_key
     ([\<lparr>party = ''PT'', ideology = 3, year = 2018\<rparr>, \<lparr>party = ''PSL'', ideology = 8, year = 2014\<rparr>]
       @ additions)"
proof -
  let ?base = "[\<lparr>party = ''PT'', ideology = 3, year = 2018\<rparr>, \<lparr>party = ''PSL'', ideology = 8, year = 2014\<rparr>]"
  have b: "one_value_per_key ?base"
    by (simp add: one_value_per_key_def)
  have c: "\<forall>b\<in>set ?base. \<forall>a\<in>set additions.
      party b = party a \<and> year b = year a \<longrightarrow> ideology b = ideology a"
    by (simp add: additions_rows)
  from ideology_table_values [of ?base] b c show ?thesis by blast
qed

text \<open>
  Claim C3 as stated fails: with a base row for \<^verbatim>\<open>PSL\<close> in 2018 the table holds two
  ideology values for that pair, the value of the base table first and the addition second.
\<close>

theorem ideology_table_collision:
  "case load_party_ideologies (Inr [\<lparr>party = ''PSL'', ideology = 3, year = 2018\<rparr>]) of
     Inl e \<Rightarrow> False
   | Inr t \<Rightarrow> \<not> one_value_per_key t
       \<and> map ideology (filter (\<lambda>r. party r = ''PSL'' \<and> year r = 2018) t) = [3, 8.5]"
proof -
  have "\<not> one_value_per_key ([\<lparr>party = ''PSL'', ideology = 3, year = 2018\<rparr>] @ additions)"
    unfolding one_value_per_key_append by (simp add: additions_rows)
  then show ?thesis
    by (simp add: load_party_ideologies_def additions_rows)
qed

section \<open>Facts about the polarization by municipality\<close>

lemma collect_results_Inr:
  "collect_results f xs = Inr ys \<Longrightarrow> list_all2 (\<lambda>x y. f x = Inr y) xs ys"
  by (induction xs arbitrary: ys) (auto split: sum.splits)

lemma collect_results_total:
  "(\<forall>x\<in>set xs. \<exists>y. f x = Inr y) \<Longrightarrow> \<exists>ys. collect_results f xs = Inr ys"
  by (induction xs) (auto split: sum.splits)

lemma polarization_row_Inr:
  "\<exists>er. 0 \<le> er \<and> polarization_row merged yr municipio =
     Inr \<lparr>cod_municipio = municipio, ano = yr, polarizacao_er = er,
          num_partidos = length (group_rows merged municipio),
          total_votos = sum_list (map (\<lambda>r. QT_VOTOS (vote r)) (group_rows merged municipio))\<rparr>"
proof -
  let ?g = "group_rows merged municipio"
  have "\<exists>v. 0 \<le> v \<and> esteban_ray_index (map vote_share ?g) (map row_ideology ?g) = Inr v"
    by (rule esteban_ray_index_returns) simp
  then show ?thesis
    by (auto simp: polarization_row_def Let_def)
qed

lemma calculate_total:
  "\<exists>rs. calculate_municipality_polarization votes_df ideology_df yr = Inr rs"
  unfolding calculate_municipality_polarization_def Let_def
  by (rule collect_results_total) (use polarization_row_Inr in blast)

lemma calculate_rows:
  assumes "calculate_municipality_polarization votes_df ideology_df yr = Inr rs"
    and "r \<in> set rs"
  shows "ano r = yr
     \<and> cod_municipio r \<in> set (map (\<lambda>r. CD_MUNICIPIO (vote r)) (merged_table votes_df ideology_df yr))
     \<and> num_partidos r = length (group_rows (merged_table votes_df ideology_df yr) (cod_municipio r))
     \<and> total_votos r = sum_list (map (\<lambda>r. QT_VOTOS (vote r))
           (group_rows (merged_table votes_df ideology_df yr) (cod_municipio r)))
     \<and> 0 \<le> polarizacao_er r"
proof -
  let ?merged = "merged_table votes_df ideology_df yr"
  define ms where "ms = sort (remdups (map (\<lambda>r. CD_MUNICIPIO (vote r)) ?merged))"
  from assms(1) have all2: "list_all2 (\<lambda>m r. polarization_row ?merged yr m = Inr r) ms rs"
    unfolding calculate_municipality_polarization_def Let_def ms_def by (rule collect_results_Inr)
  from assms(2) obtain i where i: "i < length rs" "rs ! i = r"
    by (auto simp: in_set_conv_nth)
  define m where "m = ms ! i"
  from all2 have len: "length ms = length rs"
    by (rule list_all2_lengthD)
  with i have lt: "i < length ms" by simp
  from list_all2_nthD [OF all2 lt] i have r: "polarization_row ?merged yr m = Inr r"
    unfolding m_def by simp
  from lt have "m \<in> set ms"
    unfolding m_def by (rule nth_mem)
  then have m: "m \<in> set (map (\<lambda>r. CD_MUNICIPIO (vote r)) ?merged)"
    unfolding ms_def by simp
  from polarization_row_Inr [of ?merged yr m] r m show ?thesis
    by auto
qed

lemma merged_table_two_zones:
  "merged_table
     [\<lparr>CD_MUNICIPIO = 1, SG_PARTIDO = ''PT'', QT_VOTOS = 10, DS_CARGO = ''Presidente'', NR_TURNO = 1\<rparr>,
      \<lparr>CD_MUNICIPIO = 1, SG_PARTIDO = ''PT'', QT_VOTOS = 20, DS_CARGO = ''Presidente'', NR_TURNO = 1\<rparr>]
     [\<lparr>party = ''PT'', ideology = 3, year = 2018\<rparr>] 2018
   = [\<lparr>vote = \<lparr>CD_MUNICIPIO = 1, SG_PARTIDO = ''PT'', QT_VOTOS = 10, DS_CARGO = ''Presidente'', NR_TURNO = 1\<rparr>,
        row_ideology = 3, vote_share = Num (1 / 3)\<rparr>,
      \<lparr>vote = \<lparr>CD_MUNICIPIO = 1, SG_PARTIDO = ''PT'', QT_VOTOS = 20, DS_CARGO = ''Presidente'', NR_TURNO = 1\<rparr>,
        row_ideology = 3, vote_share = Num (2 / 3)\<rparr>]"
  by (simp add: merged_table_def merge_left_def municipality_totals_def np_true_divide_def Let_def
        del: sum_list_eq_0_iff)

text \<open>
  Claim C4: the field \<^verbatim>\<open>num_partidos\<close> is the number of distinct qualifying parties of the
  group. The code writes \<^verbatim>\<open>len(group)\<close>, the number of rows of the group (lemma
  \<open>calculate_rows\<close>): for one party with records in two zones of a municipality the field
  is 2, while the group has one distinct party.
\<close>

theorem num_partidos_counts_records:
  "calculate_municipality_polarization
     [\<lparr>CD_MUNICIPIO = 1, SG_PARTIDO = ''PT'', QT_VOTOS = 10, DS_CARGO = ''Presidente'', NR_TURNO = 1\<rparr>,
      \<lparr>CD_MUNICIPIO = 1, SG_PARTIDO = ''PT'', QT_VOTOS = 20, DS_CARGO = ''Presidente'', NR_TURNO = 1\<rparr>]
     [\<lparr>party = ''PT'', ideology = 3, year = 2018\<rparr>] 2018
   = Inr [\<lparr>cod_municipio = 1, ano = 2018, polarizacao_er = 0, num_partidos = 2, total_votos = 30\<rparr>]
   \<and> distinct_parties (group_rows (merged_table
     [\<lparr>CD_MUNICIPIO = 1, SG_PARTIDO = ''PT'', QT_VOTOS = 10, DS_CARGO = ''Presidente'', NR_TURNO = 1\<rparr>,
      \<lparr>CD_MUNICIPIO = 1, SG_PARTIDO = ''PT'', QT_VOTOS = 20, DS_CARGO = ''Presidente'', NR_TURNO = 1\<rparr>]
     [\<lparr>party = ''PT'', ideology = 3, year = 2018\<rparr>] 2018) 1) = 1"
proof -
  have "esteban_ray_index [Num (1 / 3), Num (2 / 3)] [3, 3] = Inr 0"
    by (rule same_ideology_zero [where c = 3]) simp_all
  then show ?thesis
    unfolding calculate_municipality_polarization_def merged_table_two_zones
    by (simp add: polarization_row_def group_rows_def distinct_parties_def)
qed

lemma dropna_set: "(v, i) \<in> set (dropna rows) \<longleftrightarrow> (v, Some i) \<in> set rows"
  by (induction rows rule: dropna.induct) auto

lemma merge_left_Some:
  "(v, Some i) \<in> set (merge_left votes_df ideology_year) \<Longrightarrow>
   v \<in> set votes_df \<and> (\<exists>r\<in>set ideology_year. party r = SG_PARTIDO v \<and> ideology r = i)"
  by (auto simp: merge_left_def Let_def split: if_splits)


lemma merged_table_rows:
  assumes "r \<in> set (merged_table votes_df ideology_df yr)"
  shows "vote r \<in> set votes_df \<and>
     (\<exists>i\<in>set ideology_df. party i = SG_PARTIDO (vote r) \<and> year i = yr \<and> ideology i = row_ideology r)"
proof -
  from assms obtain v i where
    vi: "(v, i) \<in> set (dropna (merge_left votes_df (filter (\<lambda>r. year r = yr) ideology_df)))"
    and r: "vote r = v" "row_ideology r = i"
    by (auto simp: merged_table_def Let_def)
  from vi have "(v, Some i) \<in> set (merge_left votes_df (filter (\<lambda>r. year r = yr) ideology_df))"
    by (simp only: dropna_set)
  from merge_left_Some [OF this] r show ?thesis by auto
qed











lemma distinct_parties_one:
  assumes "distinct_parties grp = 1"
  obtains p where "grp \<noteq> []" and "\<forall>r\<in>set grp. SG_PARTIDO (vote r) = p"
proof -
  from assms have "card (set (map (\<lambda>r. SG_PARTIDO (vote r)) grp)) = 1"
    by (simp add: distinct_parties_def length_remdups_card_conv)
  then obtain p where p: "set (map (\<lambda>r. SG_PARTIDO (vote r)) grp) = {p}"
    by (auto simp: card_1_singleton_iff)
  then have "grp \<noteq> []" by auto
  moreover from p have "\<forall>r\<in>set grp. SG_PARTIDO (vote r) = p" by auto
  ultimately show ?thesis by (rule that)
qed

text \<open>
  Claim C6, as amended: for every municipality-year group with exactly one qualifying party
  for which the ideology table holds one ideology value in that year, the index is exactly
  0, whatever the vote counts (also over several records of the party) and the ideology
  value are, and the call does not fail.
\<close>

theorem one_party_group_zero:
  assumes "grp = group_rows (merged_table votes_df ideology_df yr) municipio"
    and "distinct_parties grp = 1"
    and "\<forall>r\<in>set grp. single_ideology ideology_df (SG_PARTIDO (vote r)) yr"
  shows "esteban_ray_index (map vote_share grp) (map row_ideology grp) = Inr 0
     \<and> polarization_row (merged_table votes_df ideology_df yr) yr municipio =
         Inr \<lparr>cod_municipio = municipio, ano = yr, polarizacao_er = 0,
              num_partidos = length grp,
              total_votos = sum_list (map (\<lambda>r. QT_VOTOS (vote r)) grp)\<rparr>"
proof -
  from assms(2) obtain p where ne: "grp \<noteq> []" and p: "\<forall>r\<in>set grp. SG_PARTIDO (vote r) = p"
    by (rule distinct_parties_one)
  from ne obtain r0 where r0: "r0 \<in> set grp"
    by (cases grp) auto
  have entry: "\<exists>i\<in>set ideology_df. party i = p \<and> year i = yr \<and> ideology i = row_ideology r"
    if "r \<in> set grp" for r
  proof -
    from that have "r \<in> set (merged_table votes_df ideology_df yr)"
      unfolding assms(1) group_rows_def by simp
    from merged_table_rows [OF this] p that show ?thesis by auto
  qed
  from assms(3) r0 p have single: "single_ideology ideology_df p yr"
    by auto
  have "row_ideology r = row_ideology r0" if "r \<in> set grp" for r
  proof -
    from entry [OF that] obtain i where i: "i \<in> set ideology_df" "party i = p" "year i = yr"
      "ideology i = row_ideology r" by blast
    from entry [OF r0] obtain j where j: "j \<in> set ideology_df" "party j = p" "year j = yr"
      "ideology j = row_ideology r0" by blast
    from single i j have "ideology i = ideology j"
      unfolding single_ideology_def by blast
    with i j show ?thesis by simp
  qed
  then have "\<forall>q\<in>set (map row_ideology grp). q = row_ideology r0"
    by auto
  then have er: "esteban_ray_index (map vote_share grp) (map row_ideology grp) = Inr 0"
    by (intro same_ideology_zero [where c = "row_ideology r0"]) simp_all
  then show ?thesis
    by (simp add: polarization_row_def Let_def assms(1) [symmetric])
qed

theorem one_party_group_zero_witness:
  "esteban_ray_index
     (map vote_share (group_rows (merged_table
       [\<lparr>CD_MUNICIPIO = 1, SG_PARTIDO = ''PT'', QT_VOTOS = 10, DS_CARGO = ''Presidente'', NR_TURNO = 1\<rparr>,
        \<lparr>CD_MUNICIPIO = 1, SG_PARTIDO = ''PT'', QT_VOTOS = 20, DS_CARGO = ''Presidente'', NR_TURNO = 1\<rparr>]
       [\<lparr>party = ''PT'', ideology = 3, year = 2018\<rparr>] 2018) 1))
     (map row_ideology (group_rows (merged_table
       [\<lparr>CD_MUNICIPIO = 1, SG_PARTIDO = ''PT'', QT_VOTOS = 10, DS_CARGO = ''Presidente'', NR_TURNO = 1\<rparr>,
        \<lparr>CD_MUNICIPIO = 1, SG_PARTIDO = ''PT'', QT_VOTOS = 20, DS_CARGO = ''Presidente'', NR_TURNO = 1\<rparr>]
       [\<lparr>party = ''PT'', ideology = 3, year = 2018\<rparr>] 2018) 1))
   = Inr 0"
proof -
  let ?grp = "group_rows (merged_table
       [\<lparr>CD_MUNICIPIO = 1, SG_PARTIDO = ''PT'', QT_VOTOS = 10, DS_CARGO = ''Presidente'', NR_TURNO = 1\<rparr>,
        \<lparr>CD_MUNICIPIO = 1, SG_PARTIDO = ''PT'', QT_VOTOS = 20, DS_CARGO = ''Presidente'', NR_TURNO = 1\<rparr>]
       [\<lparr>party = ''PT'', ideology = 3, year = 2018\<rparr>] 2018) 1"
  have one: "distinct_parties ?grp = 1"
    unfolding merged_table_two_zones by (simp add: group_rows_def distinct_parties_def)
  have single: "\<forall>r\<in>set ?grp. single_ideology [\<lparr>party = ''PT'', ideology = 3, year = 2018\<rparr>] (SG_PARTIDO (vote r)) 2018"
    by (simp add: single_ideology_def)
  from one_party_group_zero [OF refl one single] show ?thesis
    by (rule conjunct1)
qed

lemma merged_table_two_ideologies:
  "merged_table
     [\<lparr>CD_MUNICIPIO = 1, SG_PARTIDO = ''PSL'', QT_VOTOS = 10, DS_CARGO = ''Presidente'', NR_TURNO = 1\<rparr>]
     ([\<lparr>party = ''PSL'', ideology = 3, year = 2018\<rparr>] @ additions) 2018
   = [\<lparr>vote = \<lparr>CD_MUNICIPIO = 1, SG_PARTIDO = ''PSL'', QT_VOTOS = 10, DS_CARGO = ''Presidente'', NR_TURNO = 1\<rparr>,
        row_ideology = 3, vote_share = Num (1 / 2)\<rparr>,
      \<lparr>vote = \<lparr>CD_MUNICIPIO = 1, SG_PARTIDO = ''PSL'', QT_VOTOS = 10, DS_CARGO = ''Presidente'', NR_TURNO = 1\<rparr>,
        row_ideology = 17 / 2, vote_share = Num (1 / 2)\<rparr>]"
  by (simp add: merged_table_def merge_left_def municipality_totals_def np_true_divide_def Let_def
        additions_rows del: sum_list_eq_0_iff)

lemma index_two_ideologies:
  "esteban_ray_index [Num (1 / 2), Num (1 / 2)] [3, 17 / 2] = Inr (11 / 2 * (1 / 2) powr (13 / 5))"
  by (simp add: esteban_ray_index_eq spec_index_pairwise spec_index_def lessThan_Suc insert_Diff_if)

text \<open>
  Claim C6 as stated fails: with the base row (\<^verbatim>\<open>PSL\<close>, 2018, 3.0) the ideology table holds
  two values for \<^verbatim>\<open>PSL\<close> in 2018, the merge gives the one record of the group's only party
  two rows with ideologies 3.0 and 8.5, and the index of the group is positive.
\<close>

theorem one_party_two_ideologies:
  "load_party_ideologies (Inr [\<lparr>party = ''PSL'', ideology = 3, year = 2018\<rparr>])
     = Inr ([\<lparr>party = ''PSL'', ideology = 3, year = 2018\<rparr>] @ additions)
   \<and> distinct_parties (group_rows (merged_table
       [\<lparr>CD_MUNICIPIO = 1, SG_PARTIDO = ''PSL'', QT_VOTOS = 10, DS_CARGO = ''Presidente'', NR_TURNO = 1\<rparr>]
       ([\<lparr>party = ''PSL'', ideology = 3, year = 2018\<rparr>] @ additions) 2018) 1) = 1
   \<and> calculate_municipality_polarization
       [\<lparr>CD_MUNICIPIO = 1, SG_PARTIDO = ''PSL'', QT_VOTOS = 10, DS_CARGO = ''Presidente'', NR_TURNO = 1\<rparr>]
       ([\<lparr>party = ''PSL'', ideology = 3, year = 2018\<rparr>] @ additions) 2018
     = Inr [\<lparr>cod_municipio = 1, ano = 2018, polarizacao_er = 11 / 2 * (1 / 2) powr (13 / 5),
              num_partidos = 2, total_votos = 20\<rparr>]
   \<and> (0::real) < 11 / 2 * (1 / 2) powr (13 / 5)"
  unfolding calculate_municipality_polarization_def merged_table_two_ideologies
  by (simp add: load_party_ideologies_def polarization_row_def group_rows_def distinct_parties_def
        index_two_ideologies)

section \<open>Facts about the main function\<close>

lemma combine_and_sort_sorted:
  assumes "combine_and_sort all_results = Inr out"
  shows "sorted (map (\<lambda>r. (cod_municipio r, ano r)) out) \<and> mset out = mset (concat all_results)"
  using assms by (auto simp: combine_and_sort_def Let_def split: if_splits)

lemma main_Inr_combine:
  "main read_base read_latin1 read_iso = Inr out \<Longrightarrow> \<exists>all_results. combine_and_sort all_results = Inr out"
  by (auto simp: main_def split: sum.splits)

text \<open>
  Claim C8: the output of \<^verbatim>\<open>main\<close>, over all years, is sorted: municipality codes are
  non-decreasing, and within equal municipality codes the year is non-decreasing.
\<close>

theorem main_output_sorted:
  assumes "main read_base read_latin1 read_iso = Inr out"
  shows "sorted_wrt (\<lambda>a b. cod_municipio a < cod_municipio b
           \<or> (cod_municipio a = cod_municipio b \<and> ano a \<le> ano b)) out"
proof -
  from assms obtain all_results where "combine_and_sort all_results = Inr out"
    by (auto dest: main_Inr_combine)
  then have "sorted (map (\<lambda>r. (cod_municipio r, ano r)) out)"
    by (rule combine_and_sort_sorted [THEN conjunct1])
  then have "sorted_wrt (\<lambda>a b. (cod_municipio a, ano a) \<le> (cod_municipio b, ano b)) out"
    by (simp only: sorted_map)
  then show ?thesis
    by (rule sorted_wrt_mono_rel [rotated]) auto
qed

lemma main_two_years:
  "main
     (Inr [\<lparr>party = ''PT'', ideology = 2, year = 2014\<rparr>, \<lparr>party = ''PT'', ideology = 2, year = 2018\<rparr>])
     (\<lambda>y. Inr [[\<lparr>CD_MUNICIPIO = (if y = 2018 then 7 else 9), SG_PARTIDO = ''PT'', QT_VOTOS = 5,
                   DS_CARGO = ''Presidente'', NR_TURNO = 1\<rparr>]])
     (\<lambda>y. Inl OSError)
   = Inr [\<lparr>cod_municipio = 7, ano = 2018, polarizacao_er = 0, num_partidos = 1, total_votos = 5\<rparr>,
          \<lparr>cod_municipio = 9, ano = 2014, polarizacao_er = 0, num_partidos = 1, total_votos = 5\<rparr>]"
proof -
  have er: "esteban_ray_index [Num 1] [2] = Inr 0"
    by (rule same_ideology_zero [where c = 2]) simp_all
  show ?thesis
    by (simp add: main_def load_party_ideologies_def additions_rows ELECTION_YEARS_def
        load_tse_data_def calculate_municipality_polarization_def merged_table_def
        merge_left_def municipality_totals_def np_true_divide_def Let_def polarization_row_def
        group_rows_def combine_and_sort_def er del: sum_list_eq_0_iff)
qed

theorem main_output_sorted_witness:
  "sorted_wrt (\<lambda>a b. cod_municipio a < cod_municipio b
       \<or> (cod_municipio a = cod_municipio b \<and> ano a \<le> ano b))
     [\<lparr>cod_municipio = 7, ano = 2018, polarizacao_er = 0, num_partidos = 1, total_votos = 5\<rparr>,
      \<lparr>cod_municipio = 9, ano = 2014, polarizacao_er = 0, num_partidos = 1, total_votos = 5\<rparr>]"
  by (rule main_output_sorted [OF main_two_years])

end
